theory Spec2Isabelle
  imports Main
begin

section \<open>The persisted entities (models.py)\<close>

text \<open>
  Each SQLAlchemy class is a record with one field per column. Field names carry the
  class name as a prefix (\<open>User.id\<close> is \<open>User_id\<close>), since record fields share one
  name space. Columns hold the values the handlers write, which the request schemas type
  as \<open>int\<close>, \<open>str\<close> and \<open>bool\<close>; the relationship attributes are derived from the
  foreign-key columns and carry no data of their own.
\<close>

record User =
  User_id :: int
  User_username :: string
  User_email :: string
  User_hashed_password :: string

record Magazine =
  Magazine_id :: int
  Magazine_title :: string
  Magazine_description :: string

record Plan =
  Plan_id :: int
  Plan_magazine_id :: int
  Plan_name :: string
  Plan_price :: int
  Plan_discount :: int

record Subscription =
  Subscription_id :: int
  Subscription_user_id :: int
  Subscription_plan_id :: int
  Subscription_active :: bool

text \<open>
  The session \<open>db\<close> of a request is the content of the four tables, each a list of rows
  in insertion order. A handler takes the store and returns its result together with the
  store it leaves behind.
\<close>

record database =
  users :: "User list"
  magazines :: "Magazine list"
  plans :: "Plan list"
  subscriptions :: "Subscription list"

section \<open>Request schemas (schemas.py)\<close>


record UserLogin =
  UserLogin_username :: string
  UserLogin_password :: string

record PasswordReset =
  PasswordReset_username :: string
  PasswordReset_new_password :: string

record SubscriptionCreate =
  SubscriptionCreate_user_id :: int
  SubscriptionCreate_plan_id :: int
  SubscriptionCreate_active :: bool


record MagazineCreate =
  MagazineCreate_title :: string
  MagazineCreate_description :: string

text \<open>\<open>plan_id: int = None\<close> and \<open>active: bool = None\<close>: both fields may be \<open>None\<close>.\<close>

record SubscriptionUpdate =
  SubscriptionUpdate_plan_id :: "int option"
  SubscriptionUpdate_active :: "bool option"

text \<open>
  Building a schema object from a request body: a field the body omits (\<open>None\<close> below)
  takes the default its class declares, \<open>active: bool = True\<close> and
  \<open>discount: int = 0\<close>.
\<close>

definition SubscriptionCreate_init :: "int \<Rightarrow> int \<Rightarrow> bool option \<Rightarrow> SubscriptionCreate" where
  "SubscriptionCreate_init uid pid act =
     \<lparr>SubscriptionCreate_user_id = uid, SubscriptionCreate_plan_id = pid,
      SubscriptionCreate_active = (case act of None \<Rightarrow> True | Some b \<Rightarrow> b)\<rparr>"


section \<open>Errors\<close>

text \<open>
  \<open>HTTPException(status_code, detail)\<close> is what the handlers raise themselves.
  \<open>IntegrityError\<close> is raised by \<open>db.commit()\<close> when a row violates a unique index,
  \<open>AttributeError\<close> by Python when an attribute of \<open>None\<close> is read; no handler catches
  either.
\<close>

datatype error =
  HTTPException (status_code: int) (detail: string)
| IntegrityError
| AttributeError

abbreviation HTTP_400_BAD_REQUEST :: int where "HTTP_400_BAD_REQUEST \<equiv> 400"
abbreviation HTTP_401_UNAUTHORIZED :: int where "HTTP_401_UNAUTHORIZED \<equiv> 401"
abbreviation HTTP_403_FORBIDDEN :: int where "HTTP_403_FORBIDDEN \<equiv> 403"
abbreviation HTTP_404_NOT_FOUND :: int where "HTTP_404_NOT_FOUND \<equiv> 404"

section \<open>The store\<close>

text \<open>
  Modelled from the spec: the engine behind \<open>database.engine\<close> is not part of the
  sources. The spec gives the tables "standard auto-incrementing integer primary keys",
  says that uniqueness of usernames and emails "is enforced by the storage layer's unique
  indexes" (the \<open>unique=True\<close> columns of \<open>User\<close>), and that the references of a
  subscription are "checked, not enforced at the storage layer". So an insert gives the
  new row the key after the largest one in its table, an insert into \<open>users\<close> fails on a
  duplicate username or email, and foreign keys are not checked by the store.
\<close>

definition next_id :: "int list \<Rightarrow> int" where
  "next_id ids = fold max ids 0 + 1"


definition add_Magazine :: "string \<Rightarrow> string \<Rightarrow> database \<Rightarrow> Magazine \<times> database" where
  "add_Magazine title description db =
     (let row = \<lparr>Magazine_id = next_id (map Magazine_id (magazines db)),
                 Magazine_title = title, Magazine_description = description\<rparr>
      in (row, db\<lparr>magazines := magazines db @ [row]\<rparr>))"


definition add_Subscription :: "int \<Rightarrow> int \<Rightarrow> bool \<Rightarrow> database \<Rightarrow> Subscription \<times> database" where
  "add_Subscription user_id plan_id active db =
     (let row = \<lparr>Subscription_id = next_id (map Subscription_id (subscriptions db)),
                 Subscription_user_id = user_id, Subscription_plan_id = plan_id,
                 Subscription_active = active\<rparr>
      in (row, db\<lparr>subscriptions := subscriptions db @ [row]\<rparr>))"

text \<open>
  Committing a changed row writes it back under its primary key; \<open>db.delete(row)\<close>
  removes the row with that key.
\<close>

definition update_User :: "User \<Rightarrow> database \<Rightarrow> database" where
  "update_User row db =
     db\<lparr>users := map (\<lambda>r. if User_id r = User_id row then row else r) (users db)\<rparr>"

definition update_Subscription :: "Subscription \<Rightarrow> database \<Rightarrow> database" where
  "update_Subscription row db =
     db\<lparr>subscriptions :=
          map (\<lambda>r. if Subscription_id r = Subscription_id row then row else r) (subscriptions db)\<rparr>"

definition delete_Subscription :: "Subscription \<Rightarrow> database \<Rightarrow> database" where
  "delete_Subscription row db =
     db\<lparr>subscriptions :=
          filter (\<lambda>r. Subscription_id r \<noteq> Subscription_id row) (subscriptions db)\<rparr>"

section \<open>The route handlers (main.py)\<close>

text \<open>
  \<open>db.query(T).filter(p).first()\<close> is \<open>find p\<close> on the table, \<open>.all()\<close> is
  \<open>filter p\<close>. A handler that raises leaves the store as it found it. The helpers of
  \<open>auth.py\<close> are not part of the sources: \<open>get_password_hash\<close>, \<open>verify_password\<close> and
  \<open>create_access_token\<close> are parameters of the handlers that call them, each standing
  for the helper as it behaves in that one call (with the salt or the expiry it picks).
\<close>

definition list_magazines :: "database \<Rightarrow> Magazine list" where
  "list_magazines db = magazines db"

definition get_users :: "database \<Rightarrow> (string \<times> string) list" where
  "get_users db = map (\<lambda>u. (User_username u, User_email u)) (users db)"


definition login ::
  "(string \<Rightarrow> string \<Rightarrow> bool) \<Rightarrow> ((string \<times> string) list \<Rightarrow> string) \<Rightarrow> UserLogin \<Rightarrow> database
     \<Rightarrow> (error + (string \<times> string) list) \<times> database" where
  "login verify_password create_access_token user db =
     (case find (\<lambda>u. User_username u = UserLogin_username user) (users db) of
        None \<Rightarrow> (Inl (HTTPException HTTP_401_UNAUTHORIZED ''Incorrect username or password''), db)
      | Some db_user \<Rightarrow>
          if \<not> verify_password (UserLogin_password user) (User_hashed_password db_user)
          then (Inl (HTTPException HTTP_401_UNAUTHORIZED ''Incorrect username or password''), db)
          else (Inr [(''access_token'', create_access_token [(''sub'', User_username db_user)]),
                     (''token_type'', ''bearer'')], db))"

definition reset_password ::
  "(string \<Rightarrow> string) \<Rightarrow> PasswordReset \<Rightarrow> database \<Rightarrow> (error + (string \<times> string) list) \<times> database" where
  "reset_password get_password_hash reset db =
     (case find (\<lambda>u. User_username u = PasswordReset_username reset) (users db) of
        None \<Rightarrow> (Inl (HTTPException HTTP_404_NOT_FOUND ''User not found''), db)
      | Some db_user \<Rightarrow>
          (Inr [(''msg'', ''Password reset successful'')],
           update_User
             (db_user\<lparr>User_hashed_password := get_password_hash (PasswordReset_new_password reset)\<rparr>)
             db))"

definition create_subscription ::
  "SubscriptionCreate \<Rightarrow> database \<Rightarrow> (error + Subscription) \<times> database" where
  "create_subscription subscription db =
     (case find (\<lambda>u. User_id u = SubscriptionCreate_user_id subscription) (users db) of
        None \<Rightarrow> (Inl (HTTPException HTTP_404_NOT_FOUND ''User not found''), db)
      | Some db_user \<Rightarrow>
          (case find (\<lambda>p. Plan_id p = SubscriptionCreate_plan_id subscription) (plans db) of
             None \<Rightarrow> (Inl (HTTPException HTTP_404_NOT_FOUND ''Plan not found''), db)
           | Some db_plan \<Rightarrow>
               (let (db_subscription, db') =
                      add_Subscription (SubscriptionCreate_user_id subscription)
                        (SubscriptionCreate_plan_id subscription)
                        (SubscriptionCreate_active subscription) db
                in (Inr db_subscription, db'))))"


definition create_magazine :: "MagazineCreate \<Rightarrow> database \<Rightarrow> (error + Magazine) \<times> database" where
  "create_magazine magazine db =
     (case find (\<lambda>m. Magazine_title m = MagazineCreate_title magazine) (magazines db) of
        Some db_magazine \<Rightarrow>
          (Inl (HTTPException HTTP_400_BAD_REQUEST ''Magazine with this title already exists''), db)
      | None \<Rightarrow>
          (let (db_magazine, db') =
                 add_Magazine (MagazineCreate_title magazine) (MagazineCreate_description magazine) db
           in (Inr db_magazine, db')))"

definition get_user_subscriptions :: "int \<Rightarrow> database \<Rightarrow> (error + Subscription list) \<times> database" where
  "get_user_subscriptions user_id db =
     (let subscriptions = filter (\<lambda>s. Subscription_user_id s = user_id) (subscriptions db)
      in if subscriptions = []
         then (Inl (HTTPException HTTP_404_NOT_FOUND ''No subscriptions found for this user''), db)
         else (Inr subscriptions, db))"

definition update_subscription ::
  "int \<Rightarrow> SubscriptionUpdate \<Rightarrow> database \<Rightarrow> (error + Subscription) \<times> database" where
  "update_subscription subscription_id subscription db =
     (case find (\<lambda>s. Subscription_id s = subscription_id) (subscriptions db) of
        None \<Rightarrow> (Inl (HTTPException HTTP_404_NOT_FOUND ''Subscription not found''), db)
      | Some db_subscription \<Rightarrow>
          (let s1 = (case SubscriptionUpdate_plan_id subscription of
                       Some p \<Rightarrow> db_subscription\<lparr>Subscription_plan_id := p\<rparr>
                     | None \<Rightarrow> db_subscription);
               s2 = (case SubscriptionUpdate_active subscription of
                       Some a \<Rightarrow> s1\<lparr>Subscription_active := a\<rparr>
                     | None \<Rightarrow> s1)
           in (Inr s2, update_Subscription s2 db)))"

text \<open>The placeholder for the authenticated user: the row of \<open>users\<close> with id 1, or \<open>None\<close>.\<close>

definition get_current_user :: "database \<Rightarrow> User option" where
  "get_current_user db = find (\<lambda>u. User_id u = 1) (users db)"

text \<open>
  The handler proper takes what \<open>Depends(get_current_user)\<close> hands it. Reading
  \<open>current_user.id\<close> when no user was found raises \<open>AttributeError\<close>; the read happens
  only after the subscription has been found.
\<close>

definition delete_subscription_with ::
  "int \<Rightarrow> database \<Rightarrow> User option \<Rightarrow> (error + (string \<times> string) list) \<times> database" where
  "delete_subscription_with subscription_id db current_user =
     (case find (\<lambda>s. Subscription_id s = subscription_id) (subscriptions db) of
        None \<Rightarrow> (Inl (HTTPException HTTP_404_NOT_FOUND ''Subscription not found''), db)
      | Some db_subscription \<Rightarrow>
          (case current_user of
             None \<Rightarrow> (Inl AttributeError, db)
           | Some cu \<Rightarrow>
               if Subscription_user_id db_subscription \<noteq> User_id cu
               then (Inl (HTTPException HTTP_403_FORBIDDEN
                            ''You do not have permission to delete this subscription''), db)
               else (Inr [(''msg'', ''Subscription deleted successfully'')],
                     delete_Subscription db_subscription db)))"

text \<open>The route \<open>DELETE /subscriptions/{subscription_id}\<close> with its dependency resolved.\<close>

definition delete_subscription ::
  "int \<Rightarrow> database \<Rightarrow> (error + (string \<times> string) list) \<times> database" where
  "delete_subscription subscription_id db =
     delete_subscription_with subscription_id db (get_current_user db)"

section \<open>References from subscriptions to plans\<close>

text \<open>
  What \<open>create_subscription\<close> checks before it inserts: the \<open>plan_id\<close> of a
  subscription is the id of a stored plan.
\<close>

definition references_existing_plan :: "database \<Rightarrow> Subscription \<Rightarrow> bool" where
  "references_existing_plan db s \<longleftrightarrow> Subscription_plan_id s \<in> set (map Plan_id (plans db))"

definition plan_references_hold :: "database \<Rightarrow> bool" where
  "plan_references_hold db \<longleftrightarrow> list_all (references_existing_plan db) (subscriptions db)"

section \<open>Example stores\<close>

text \<open>
  A store with two users, one magazine with one plan, and one subscription for each user;
  and a store whose only user has id 2, as it is after the first user's row was removed
  by hand.
\<close>

definition alice :: User where
  "alice = \<lparr>User_id = 1, User_username = ''alice'', User_email = ''alice@example.com'',
            User_hashed_password = ''$2b$12$aaaa''\<rparr>"

definition bob :: User where
  "bob = \<lparr>User_id = 2, User_username = ''bob'', User_email = ''bob@example.com'',
          User_hashed_password = ''$2b$12$bbbb''\<rparr>"

definition tech_monthly :: Magazine where
  "tech_monthly = \<lparr>Magazine_id = 1, Magazine_title = ''Tech Monthly'',
                   Magazine_description = ''A magazine dedicated to the latest in tech.''\<rparr>"

definition monthly_plan :: Plan where
  "monthly_plan = \<lparr>Plan_id = 1, Plan_magazine_id = 1, Plan_name = ''Monthly Subscription'',
                   Plan_price = 10, Plan_discount = 0\<rparr>"

definition alice_sub :: Subscription where
  "alice_sub = \<lparr>Subscription_id = 1, Subscription_user_id = 1, Subscription_plan_id = 1,
                Subscription_active = True\<rparr>"

definition bob_sub :: Subscription where
  "bob_sub = \<lparr>Subscription_id = 2, Subscription_user_id = 2, Subscription_plan_id = 1,
              Subscription_active = True\<rparr>"

definition shop :: database where
  "shop = \<lparr>users = [alice, bob], magazines = [tech_monthly], plans = [monthly_plan],
           subscriptions = [alice_sub, bob_sub]\<rparr>"

definition shop_without_alice :: database where
  "shop_without_alice = \<lparr>users = [bob], magazines = [tech_monthly], plans = [monthly_plan],
                         subscriptions = [bob_sub]\<rparr>"


definition stand_in_verify :: "string \<Rightarrow> string \<Rightarrow> bool" where
  "stand_in_verify plain_password hashed_password \<longleftrightarrow> hashed_password = ''$2b$12$'' @ plain_password"

definition stand_in_token :: "(string \<times> string) list \<Rightarrow> string" where
  "stand_in_token data = ''token.'' @ concat (map snd data)"


section \<open>Facts about queries and the store\<close>

lemma find_None_iff_no_row: "find P xs = None \<longleftrightarrow> (\<forall>x\<in>set xs. \<not> P x)"
  by (induction xs) auto

lemma find_Some_row: "find P xs = Some x \<Longrightarrow> x \<in> set xs \<and> P x"
  by (induction xs) (auto split: if_splits)

lemma fold_max_ge_start: "(a::int) \<le> fold max xs a"
  by (induction xs arbitrary: a) (auto intro: order_trans [OF max.cobounded2])

lemma fold_max_ge_elem: "(x::int) \<in> set xs \<Longrightarrow> x \<le> fold max xs a"
  by (induction xs arbitrary: a) (auto intro: order_trans [OF max.cobounded1 fold_max_ge_start])

lemma next_id_fresh: "next_id ids \<notin> set ids"
proof
  assume "next_id ids \<in> set ids"
  then have "next_id ids \<le> fold max ids 0" by (rule fold_max_ge_elem)
  then show False by (simp add: next_id_def)
qed

lemma find_Some_if_row: "\<exists>x\<in>set xs. P x \<Longrightarrow> \<exists>y. find P xs = Some y"
  by (cases "find P xs") (auto simp: find_None_iff_no_row)

lemma find_Some_image: "find (\<lambda>x. f x = k) xs = Some y \<Longrightarrow> k \<in> f ` set xs"
  by (auto dest: find_Some_row)

lemmas example_defs =
  shop_def shop_without_alice_def alice_def bob_def tech_monthly_def monthly_plan_def
  alice_sub_def bob_sub_def

section \<open>Subscriptions of a user\<close>

text \<open>
  C6. \<open>get_user_subscriptions user_id\<close> fails with 404 when no stored subscription has
  that \<open>user_id\<close>, whether or not such a user exists (the \<open>users\<close> table is not
  consulted, so replacing it changes nothing); otherwise it returns all subscriptions
  with that \<open>user_id\<close>, in table order and with nothing filtered out. The store is left
  as it was.
\<close>

theorem get_user_subscriptions_result:
  "((\<forall>s\<in>set (subscriptions db). Subscription_user_id s \<noteq> uid) \<longrightarrow>
      get_user_subscriptions uid db =
        (Inl (HTTPException 404 ''No subscriptions found for this user''), db))
   \<and> ((\<exists>s\<in>set (subscriptions db). Subscription_user_id s = uid) \<longrightarrow>
      get_user_subscriptions uid db =
        (Inr (filter (\<lambda>s. Subscription_user_id s = uid) (subscriptions db)), db)
      \<and> (\<forall>s. s \<in> set (filter (\<lambda>s. Subscription_user_id s = uid) (subscriptions db))
             \<longleftrightarrow> s \<in> set (subscriptions db) \<and> Subscription_user_id s = uid))
   \<and> fst (get_user_subscriptions uid (db\<lparr>users := us\<rparr>)) = fst (get_user_subscriptions uid db)"
  by (auto simp: get_user_subscriptions_def Let_def filter_empty_conv)

theorem get_user_subscriptions_result_witness:
  "3 \<notin> Subscription_user_id ` set (subscriptions shop)
   \<and> get_user_subscriptions 3 shop =
       (Inl (HTTPException 404 ''No subscriptions found for this user''), shop)
   \<and> 2 \<in> Subscription_user_id ` set (subscriptions shop)
   \<and> get_user_subscriptions 2 shop = (Inr [bob_sub], shop)"
proof -
  have none: "\<forall>s\<in>set (subscriptions shop). Subscription_user_id s \<noteq> 3"
    by (simp add: example_defs)
  have some: "\<exists>s\<in>set (subscriptions shop). Subscription_user_id s = 2"
    by (simp add: example_defs)
  have sel: "filter (\<lambda>s. Subscription_user_id s = 2) (subscriptions shop) = [bob_sub]"
    by (simp add: example_defs)
  from none get_user_subscriptions_result [of shop 3]
  have a: "get_user_subscriptions 3 shop =
             (Inl (HTTPException 404 ''No subscriptions found for this user''), shop)"
    by blast
  from some get_user_subscriptions_result [of shop 2]
  have "get_user_subscriptions 2 shop =
          (Inr (filter (\<lambda>s. Subscription_user_id s = 2) (subscriptions shop)), shop)"
    by blast
  with sel have b: "get_user_subscriptions 2 shop = (Inr [bob_sub], shop)"
    by simp
  from none a some b show ?thesis by force
qed

section \<open>Deleting a subscription\<close>

lemma find_user_1:
  assumes "\<exists>u\<in>set us. User_id u = 1"
  shows "\<exists>cu. find (\<lambda>u. User_id u = 1) us = Some cu \<and> User_id cu = 1 \<and> cu \<in> set us"
proof (cases "find (\<lambda>u. User_id u = 1) us")
  case None
  with assms show ?thesis by (simp add: find_None_iff_no_row)
next
  case (Some cu)
  then show ?thesis using find_Some_row [OF Some] by simp
qed




text \<open>
  C10. \<open>get_current_user\<close> takes the store and nothing of the request. In a store with a
  user whose id is 1 it returns such a user; \<open>delete_subscription\<close> then fails with 403 for
  a subscription found under the id whose \<open>user_id\<close> is not 1, succeeds for one whose
  \<open>user_id\<close> is 1, and whenever it succeeds the subscription found has \<open>user_id\<close> 1.
\<close>

theorem delete_subscription_as_user_1:
  "(\<exists>u\<in>set (users db). User_id u = 1) \<longrightarrow>
     (\<exists>cu. get_current_user db = Some cu \<and> User_id cu = 1 \<and> cu \<in> set (users db))
     \<and> (find (\<lambda>r. Subscription_id r = sid) (subscriptions db) = Some s
          \<and> Subscription_user_id s \<noteq> 1 \<longrightarrow>
        delete_subscription sid db =
          (Inl (HTTPException 403 ''You do not have permission to delete this subscription''), db))
     \<and> (find (\<lambda>r. Subscription_id r = sid) (subscriptions db) = Some s
          \<and> Subscription_user_id s = 1 \<longrightarrow>
        fst (delete_subscription sid db) = Inr [(''msg'', ''Subscription deleted successfully'')])
     \<and> (fst (delete_subscription sid db) = Inr msg \<longrightarrow>
        (\<exists>r. find (\<lambda>r. Subscription_id r = sid) (subscriptions db) = Some r
           \<and> Subscription_user_id r = 1))"
proof
  assume "\<exists>u\<in>set (users db). User_id u = 1"
  then obtain cu where cu: "get_current_user db = Some cu" "User_id cu = 1" "cu \<in> set (users db)"
    unfolding get_current_user_def using find_user_1 by blast
  have "\<exists>c. get_current_user db = Some c \<and> User_id c = 1 \<and> c \<in> set (users db)"
    using cu by blast
  moreover have "find (\<lambda>r. Subscription_id r = sid) (subscriptions db) = Some s
      \<and> Subscription_user_id s \<noteq> 1 \<longrightarrow>
    delete_subscription sid db =
      (Inl (HTTPException 403 ''You do not have permission to delete this subscription''), db)"
    using cu by (simp add: delete_subscription_def delete_subscription_with_def)
  moreover have "find (\<lambda>r. Subscription_id r = sid) (subscriptions db) = Some s
      \<and> Subscription_user_id s = 1 \<longrightarrow>
    fst (delete_subscription sid db) = Inr [(''msg'', ''Subscription deleted successfully'')]"
    using cu by (simp add: delete_subscription_def delete_subscription_with_def)
  moreover have "fst (delete_subscription sid db) = Inr msg \<longrightarrow>
    (\<exists>r. find (\<lambda>r. Subscription_id r = sid) (subscriptions db) = Some r
       \<and> Subscription_user_id r = 1)"
    using cu
    by (auto simp: delete_subscription_def delete_subscription_with_def
        split: option.splits if_splits)
  ultimately show "(\<exists>cu. get_current_user db = Some cu \<and> User_id cu = 1 \<and> cu \<in> set (users db))
     \<and> (find (\<lambda>r. Subscription_id r = sid) (subscriptions db) = Some s
          \<and> Subscription_user_id s \<noteq> 1 \<longrightarrow>
        delete_subscription sid db =
          (Inl (HTTPException 403 ''You do not have permission to delete this subscription''), db))
     \<and> (find (\<lambda>r. Subscription_id r = sid) (subscriptions db) = Some s
          \<and> Subscription_user_id s = 1 \<longrightarrow>
        fst (delete_subscription sid db) = Inr [(''msg'', ''Subscription deleted successfully'')])
     \<and> (fst (delete_subscription sid db) = Inr msg \<longrightarrow>
        (\<exists>r. find (\<lambda>r. Subscription_id r = sid) (subscriptions db) = Some r
           \<and> Subscription_user_id r = 1))"
    by blast
qed

theorem delete_subscription_as_user_1_witness:
  "1 \<in> User_id ` set (users shop)
   \<and> get_current_user shop = Some alice
   \<and> fst (delete_subscription 2 shop) =
       Inl (HTTPException 403 ''You do not have permission to delete this subscription'')
   \<and> fst (delete_subscription 1 shop) = Inr [(''msg'', ''Subscription deleted successfully'')]"
proof -
  have u1: "\<exists>u\<in>set (users shop). User_id u = 1" by (simp add: example_defs)
  have u1': "1 \<in> User_id ` set (users shop)" by (simp add: example_defs)
  have cu: "get_current_user shop = Some alice"
    by (simp add: get_current_user_def example_defs)
  have f2: "find (\<lambda>r. Subscription_id r = 2) (subscriptions shop) = Some bob_sub
      \<and> Subscription_user_id bob_sub \<noteq> 1"
    by (simp add: example_defs)
  have f1: "find (\<lambda>r. Subscription_id r = 1) (subscriptions shop) = Some alice_sub
      \<and> Subscription_user_id alice_sub = 1"
    by (simp add: example_defs)
  from u1 f2 delete_subscription_as_user_1 [of shop 2 bob_sub]
  have b: "fst (delete_subscription 2 shop) =
      Inl (HTTPException 403 ''You do not have permission to delete this subscription'')"
    by simp
  from u1 f1 delete_subscription_as_user_1 [of shop 1 alice_sub]
  have c: "fst (delete_subscription 1 shop) = Inr [(''msg'', ''Subscription deleted successfully'')]"
    by simp
  from u1' cu b c show ?thesis by blast
qed

section \<open>Updating a subscription\<close>

lemma find_after_rewrite:
  "find P xs = Some s \<Longrightarrow> P s' \<Longrightarrow> find P (map (\<lambda>r. if P r then s' else r) xs) = Some s'"
  by (induction xs) (auto split: if_splits)

lemma rewrite_keeps_other_rows:
  "P s' \<Longrightarrow> filter (\<lambda>r. \<not> P r) (map (\<lambda>r. if P r then s' else r) xs) = filter (\<lambda>r. \<not> P r) xs"
  by (induction xs) auto

lemma rewrite_keeps_keys:
  "f s' = k \<Longrightarrow> map f (map (\<lambda>r. if f r = k then s' else r) xs) = map f xs"
  by (induction xs) auto

lemma update_subscription_found:
  assumes "find (\<lambda>r. Subscription_id r = sid) (subscriptions db) = Some s"
  shows "update_subscription sid upd db =
    (Inr (s\<lparr>Subscription_plan_id :=
               (case SubscriptionUpdate_plan_id upd of None \<Rightarrow> Subscription_plan_id s | Some p \<Rightarrow> p),
            Subscription_active :=
               (case SubscriptionUpdate_active upd of None \<Rightarrow> Subscription_active s | Some a \<Rightarrow> a)\<rparr>),
     db\<lparr>subscriptions :=
          map (\<lambda>r. if Subscription_id r = sid
                   then s\<lparr>Subscription_plan_id :=
                            (case SubscriptionUpdate_plan_id upd of
                               None \<Rightarrow> Subscription_plan_id s | Some p \<Rightarrow> p),
                          Subscription_active :=
                            (case SubscriptionUpdate_active upd of
                               None \<Rightarrow> Subscription_active s | Some a \<Rightarrow> a)\<rparr>
                   else r)
            (subscriptions db)\<rparr>)"
proof -
  from assms have "Subscription_id s = sid" by (blast dest: find_Some_row)
  with assms show ?thesis
    by (simp add: update_subscription_def update_Subscription_def Let_def split: option.splits)
qed

theorem update_subscription_partial:
  "find (\<lambda>r. Subscription_id r = sid) (subscriptions db) = Some s \<longrightarrow>
     (\<exists>s' db'. update_subscription sid upd db = (Inr s', db')
        \<and> Subscription_id s' = Subscription_id s
        \<and> Subscription_user_id s' = Subscription_user_id s
        \<and> Subscription_plan_id s' =
            (case SubscriptionUpdate_plan_id upd of None \<Rightarrow> Subscription_plan_id s | Some p \<Rightarrow> p)
        \<and> Subscription_active s' =
            (case SubscriptionUpdate_active upd of None \<Rightarrow> Subscription_active s | Some a \<Rightarrow> a)
        \<and> find (\<lambda>r. Subscription_id r = sid) (subscriptions db') = Some s'
        \<and> map Subscription_id (subscriptions db') = map Subscription_id (subscriptions db)
        \<and> filter (\<lambda>r. Subscription_id r \<noteq> sid) (subscriptions db') =
            filter (\<lambda>r. Subscription_id r \<noteq> sid) (subscriptions db)
        \<and> users db' = users db \<and> magazines db' = magazines db \<and> plans db' = plans db)"
proof
  assume found: "find (\<lambda>r. Subscription_id r = sid) (subscriptions db) = Some s"
  define s' where "s' = s\<lparr>Subscription_plan_id :=
               (case SubscriptionUpdate_plan_id upd of None \<Rightarrow> Subscription_plan_id s | Some p \<Rightarrow> p),
            Subscription_active :=
               (case SubscriptionUpdate_active upd of None \<Rightarrow> Subscription_active s | Some a \<Rightarrow> a)\<rparr>"
  define db' where "db' = db\<lparr>subscriptions :=
      map (\<lambda>r. if Subscription_id r = sid then s' else r) (subscriptions db)\<rparr>"
  from found have key: "Subscription_id s = sid" by (blast dest: find_Some_row)
  have res: "update_subscription sid upd db = (Inr s', db')"
    unfolding s'_def db'_def by (rule update_subscription_found [OF found])
  have key': "Subscription_id s' = sid" using key by (simp add: s'_def)
  have stored: "find (\<lambda>r. Subscription_id r = sid) (subscriptions db') = Some s'"
    unfolding db'_def using find_after_rewrite [OF found key'] by simp
  have keys: "map Subscription_id (subscriptions db') = map Subscription_id (subscriptions db)"
    unfolding db'_def
    using rewrite_keeps_keys [of Subscription_id s' sid "subscriptions db"] key' by simp
  have others: "filter (\<lambda>r. Subscription_id r \<noteq> sid) (subscriptions db') =
      filter (\<lambda>r. Subscription_id r \<noteq> sid) (subscriptions db)"
    unfolding db'_def
    using rewrite_keeps_other_rows [of "\<lambda>r. Subscription_id r = sid" s' "subscriptions db"] key'
    by simp
  have fields: "Subscription_id s' = Subscription_id s"
    "Subscription_user_id s' = Subscription_user_id s"
    "Subscription_plan_id s' =
       (case SubscriptionUpdate_plan_id upd of None \<Rightarrow> Subscription_plan_id s | Some p \<Rightarrow> p)"
    "Subscription_active s' =
       (case SubscriptionUpdate_active upd of None \<Rightarrow> Subscription_active s | Some a \<Rightarrow> a)"
    by (simp_all add: s'_def)
  have tables: "users db' = users db" "magazines db' = magazines db" "plans db' = plans db"
    by (simp_all add: db'_def)
  from res fields stored keys others tables
  show "\<exists>s' db'. update_subscription sid upd db = (Inr s', db')
        \<and> Subscription_id s' = Subscription_id s
        \<and> Subscription_user_id s' = Subscription_user_id s
        \<and> Subscription_plan_id s' =
            (case SubscriptionUpdate_plan_id upd of None \<Rightarrow> Subscription_plan_id s | Some p \<Rightarrow> p)
        \<and> Subscription_active s' =
            (case SubscriptionUpdate_active upd of None \<Rightarrow> Subscription_active s | Some a \<Rightarrow> a)
        \<and> find (\<lambda>r. Subscription_id r = sid) (subscriptions db') = Some s'
        \<and> map Subscription_id (subscriptions db') = map Subscription_id (subscriptions db)
        \<and> filter (\<lambda>r. Subscription_id r \<noteq> sid) (subscriptions db') =
            filter (\<lambda>r. Subscription_id r \<noteq> sid) (subscriptions db)
        \<and> users db' = users db \<and> magazines db' = magazines db \<and> plans db' = plans db"
    by blast
qed

theorem update_subscription_partial_witness:
  "find (\<lambda>r. Subscription_id r = 1) (subscriptions shop) = Some alice_sub
   \<and> Subscription_plan_id alice_sub = 1 \<and> Subscription_active alice_sub
   \<and> (\<exists>s' db'. update_subscription 1
          \<lparr>SubscriptionUpdate_plan_id = None, SubscriptionUpdate_active = Some False\<rparr> shop = (Inr s', db')
        \<and> Subscription_id s' = 1 \<and> Subscription_user_id s' = 1
        \<and> Subscription_plan_id s' = 1 \<and> \<not> Subscription_active s'
        \<and> find (\<lambda>r. Subscription_id r = 1) (subscriptions db') = Some s')"
proof -
  have found: "find (\<lambda>r. Subscription_id r = 1) (subscriptions shop) = Some alice_sub"
    by (simp add: example_defs)
  have before: "Subscription_id alice_sub = 1" "Subscription_user_id alice_sub = 1"
    "Subscription_plan_id alice_sub = 1" "Subscription_active alice_sub"
    by (simp_all add: example_defs)
  from found update_subscription_partial [of 1 shop alice_sub
      "\<lparr>SubscriptionUpdate_plan_id = None, SubscriptionUpdate_active = Some False\<rparr>"]
  obtain s' db' where
    "update_subscription 1
       \<lparr>SubscriptionUpdate_plan_id = None, SubscriptionUpdate_active = Some False\<rparr> shop = (Inr s', db')"
    "Subscription_id s' = Subscription_id alice_sub"
    "Subscription_user_id s' = Subscription_user_id alice_sub"
    "Subscription_plan_id s' = Subscription_plan_id alice_sub"
    "Subscription_active s' = False"
    "find (\<lambda>r. Subscription_id r = 1) (subscriptions db') = Some s'"
    by auto
  with found before show ?thesis by auto
qed

lemma create_subscription_keeps_plan_references:
  "plan_references_hold db \<Longrightarrow> plan_references_hold (snd (create_subscription req db))"
  by (auto simp: plan_references_hold_def references_existing_plan_def create_subscription_def
      add_Subscription_def Let_def list_all_iff
      split: option.splits dest: find_Some_image)

text \<open>
  C9. For a subscription found under the id and a request whose \<open>plan_id\<close> is not
  \<open>None\<close>, \<open>update_subscription\<close> succeeds and stores that \<open>plan_id\<close> whether or not
  the \<open>plans\<close> table has a plan with that id: it does not write the table, and returns
  the same row whatever the table holds. When there is no such plan, the store it leaves
  has a subscription that references no plan, so the property that \<open>create_subscription\<close>
  maintains is lost.
\<close>

theorem update_subscription_unchecked_plan:
  "find (\<lambda>r. Subscription_id r = sid) (subscriptions db) = Some s \<longrightarrow>
     (\<exists>s' db'. update_subscription sid
          \<lparr>SubscriptionUpdate_plan_id = Some p, SubscriptionUpdate_active = a\<rparr> db = (Inr s', db')
        \<and> Subscription_plan_id s' = p
        \<and> find (\<lambda>r. Subscription_id r = sid) (subscriptions db') = Some s'
        \<and> plans db' = plans db
        \<and> ((\<forall>q\<in>set (plans db). Plan_id q \<noteq> p) \<longrightarrow> \<not> plan_references_hold db')
        \<and> fst (update_subscription sid
            \<lparr>SubscriptionUpdate_plan_id = Some p, SubscriptionUpdate_active = a\<rparr>
            (db\<lparr>plans := other_plans\<rparr>)) = Inr s')"
proof
  assume found: "find (\<lambda>r. Subscription_id r = sid) (subscriptions db) = Some s"
  let ?upd = "\<lparr>SubscriptionUpdate_plan_id = Some p, SubscriptionUpdate_active = a\<rparr>"
  define s' where "s' = s\<lparr>Subscription_plan_id := p,
      Subscription_active := (case a of None \<Rightarrow> Subscription_active s | Some b \<Rightarrow> b)\<rparr>"
  define db' where "db' = db\<lparr>subscriptions :=
      map (\<lambda>r. if Subscription_id r = sid then s' else r) (subscriptions db)\<rparr>"
  from found have key: "Subscription_id s = sid" by (blast dest: find_Some_row)
  have res: "update_subscription sid ?upd db = (Inr s', db')"
    unfolding s'_def db'_def using update_subscription_found [OF found, of ?upd] by simp
  have key': "Subscription_id s' = sid" using key by (simp add: s'_def)
  have plan: "Subscription_plan_id s' = p" by (simp add: s'_def)
  have stored: "find (\<lambda>r. Subscription_id r = sid) (subscriptions db') = Some s'"
    unfolding db'_def using find_after_rewrite [OF found key'] by simp
  have tables: "plans db' = plans db" by (simp add: db'_def)
  have broken: "\<not> plan_references_hold db'" if none: "\<forall>q\<in>set (plans db). Plan_id q \<noteq> p"
  proof
    assume "plan_references_hold db'"
    moreover from stored have "s' \<in> set (subscriptions db')" by (blast dest: find_Some_row)
    ultimately have "references_existing_plan db' s'"
      by (simp add: plan_references_hold_def list_all_iff)
    with plan tables none show False
      by (auto simp: references_existing_plan_def)
  qed
  have unread: "fst (update_subscription sid ?upd (db\<lparr>plans := other_plans\<rparr>)) = Inr s'"
    using found res by (simp add: update_subscription_def Let_def)
  from res plan stored tables broken unread
  show "\<exists>s' db'. update_subscription sid ?upd db = (Inr s', db')
        \<and> Subscription_plan_id s' = p
        \<and> find (\<lambda>r. Subscription_id r = sid) (subscriptions db') = Some s'
        \<and> plans db' = plans db
        \<and> ((\<forall>q\<in>set (plans db). Plan_id q \<noteq> p) \<longrightarrow> \<not> plan_references_hold db')
        \<and> fst (update_subscription sid ?upd (db\<lparr>plans := other_plans\<rparr>)) = Inr s'"
    by blast
qed

theorem update_subscription_unchecked_plan_witness:
  "plan_references_hold shop
   \<and> 99 \<notin> Plan_id ` set (plans shop)
   \<and> (\<exists>s' db'. update_subscription 1
          \<lparr>SubscriptionUpdate_plan_id = Some 99, SubscriptionUpdate_active = None\<rparr> shop = (Inr s', db')
        \<and> Subscription_plan_id s' = 99
        \<and> find (\<lambda>r. Subscription_id r = 1) (subscriptions db') = Some s'
        \<and> \<not> plan_references_hold db')"
proof -
  have found: "find (\<lambda>r. Subscription_id r = 1) (subscriptions shop) = Some alice_sub"
    by (simp add: example_defs)
  have none: "\<forall>q\<in>set (plans shop). Plan_id q \<noteq> 99"
    by (simp add: example_defs)
  have none': "99 \<notin> Plan_id ` set (plans shop)"
    by (simp add: example_defs)
  have before: "plan_references_hold shop"
    by (simp add: plan_references_hold_def references_existing_plan_def example_defs)
  from found none update_subscription_unchecked_plan [of 1 shop alice_sub 99 None "[]"]
  have "\<exists>s' db'. update_subscription 1
          \<lparr>SubscriptionUpdate_plan_id = Some 99, SubscriptionUpdate_active = None\<rparr> shop = (Inr s', db')
        \<and> Subscription_plan_id s' = 99
        \<and> find (\<lambda>r. Subscription_id r = 1) (subscriptions db') = Some s'
        \<and> \<not> plan_references_hold db'"
    by blast
  with before none' show ?thesis by blast
qed

section \<open>Creating subscriptions, plans and magazines\<close>

lemma create_subscription_inserts:
  assumes "\<exists>u\<in>set (users db). User_id u = SubscriptionCreate_user_id req"
    and "\<exists>p\<in>set (plans db). Plan_id p = SubscriptionCreate_plan_id req"
  shows "create_subscription req db =
    (Inr \<lparr>Subscription_id = next_id (map Subscription_id (subscriptions db)),
          Subscription_user_id = SubscriptionCreate_user_id req,
          Subscription_plan_id = SubscriptionCreate_plan_id req,
          Subscription_active = SubscriptionCreate_active req\<rparr>,
     db\<lparr>subscriptions := subscriptions db @
          [\<lparr>Subscription_id = next_id (map Subscription_id (subscriptions db)),
            Subscription_user_id = SubscriptionCreate_user_id req,
            Subscription_plan_id = SubscriptionCreate_plan_id req,
            Subscription_active = SubscriptionCreate_active req\<rparr>]\<rparr>)"
proof -
  from assms(1) obtain u where "find (\<lambda>u. User_id u = SubscriptionCreate_user_id req) (users db) = Some u"
    using find_Some_if_row by fastforce
  moreover from assms(2) obtain p where "find (\<lambda>p. Plan_id p = SubscriptionCreate_plan_id req) (plans db) = Some p"
    using find_Some_if_row by fastforce
  ultimately show ?thesis
    by (simp add: create_subscription_def add_Subscription_def Let_def)
qed

text \<open>
  C4. \<open>create_subscription\<close> fails with 404 and leaves the store as it was when no user
  has the request's \<open>user_id\<close>, and when no plan has its \<open>plan_id\<close>. When both exist it
  appends one row to \<open>subscriptions\<close>, with the next key, which no other subscription has,
  and the request's \<open>user_id\<close>, \<open>plan_id\<close> and \<open>active\<close>, and returns that row. A request
  built without \<open>active\<close> creates a row whose \<open>active\<close> is true.
\<close>

theorem create_subscription_result:
  "((\<forall>u\<in>set (users db). User_id u \<noteq> SubscriptionCreate_user_id req) \<longrightarrow>
      create_subscription req db = (Inl (HTTPException 404 ''User not found''), db))
   \<and> ((\<exists>u\<in>set (users db). User_id u = SubscriptionCreate_user_id req)
      \<and> (\<forall>p\<in>set (plans db). Plan_id p \<noteq> SubscriptionCreate_plan_id req) \<longrightarrow>
      create_subscription req db = (Inl (HTTPException 404 ''Plan not found''), db))
   \<and> ((\<exists>u\<in>set (users db). User_id u = SubscriptionCreate_user_id req)
      \<and> (\<exists>p\<in>set (plans db). Plan_id p = SubscriptionCreate_plan_id req) \<longrightarrow>
      (\<exists>row. create_subscription req db = (Inr row, db\<lparr>subscriptions := subscriptions db @ [row]\<rparr>)
         \<and> row = \<lparr>Subscription_id = next_id (map Subscription_id (subscriptions db)),
                  Subscription_user_id = SubscriptionCreate_user_id req,
                  Subscription_plan_id = SubscriptionCreate_plan_id req,
                  Subscription_active = SubscriptionCreate_active req\<rparr>
         \<and> Subscription_id row \<notin> Subscription_id ` set (subscriptions db)))
   \<and> ((\<exists>u\<in>set (users db). User_id u = uid) \<and> (\<exists>p\<in>set (plans db). Plan_id p = pid) \<longrightarrow>
      (\<exists>row db'. create_subscription (SubscriptionCreate_init uid pid None) db = (Inr row, db')
         \<and> row \<in> set (subscriptions db') \<and> Subscription_active row))"
proof (intro conjI impI)
  assume "\<forall>u\<in>set (users db). User_id u \<noteq> SubscriptionCreate_user_id req"
  then have "find (\<lambda>u. User_id u = SubscriptionCreate_user_id req) (users db) = None"
    by (simp add: find_None_iff_no_row)
  then show "create_subscription req db = (Inl (HTTPException 404 ''User not found''), db)"
    by (simp add: create_subscription_def)
next
  assume h: "(\<exists>u\<in>set (users db). User_id u = SubscriptionCreate_user_id req)
      \<and> (\<forall>p\<in>set (plans db). Plan_id p \<noteq> SubscriptionCreate_plan_id req)"
  then obtain u where "find (\<lambda>u. User_id u = SubscriptionCreate_user_id req) (users db) = Some u"
    using find_Some_if_row [of "users db" "\<lambda>u. User_id u = SubscriptionCreate_user_id req"]
    by blast
  moreover from h have "find (\<lambda>p. Plan_id p = SubscriptionCreate_plan_id req) (plans db) = None"
    by (simp add: find_None_iff_no_row)
  ultimately show "create_subscription req db = (Inl (HTTPException 404 ''Plan not found''), db)"
    by (simp add: create_subscription_def)
next
  assume h: "(\<exists>u\<in>set (users db). User_id u = SubscriptionCreate_user_id req)
      \<and> (\<exists>p\<in>set (plans db). Plan_id p = SubscriptionCreate_plan_id req)"
  have fresh: "next_id (map Subscription_id (subscriptions db)) \<notin> Subscription_id ` set (subscriptions db)"
    using next_id_fresh [of "map Subscription_id (subscriptions db)"] by simp
  from h have "create_subscription req db =
    (Inr \<lparr>Subscription_id = next_id (map Subscription_id (subscriptions db)),
          Subscription_user_id = SubscriptionCreate_user_id req,
          Subscription_plan_id = SubscriptionCreate_plan_id req,
          Subscription_active = SubscriptionCreate_active req\<rparr>,
     db\<lparr>subscriptions := subscriptions db @
          [\<lparr>Subscription_id = next_id (map Subscription_id (subscriptions db)),
            Subscription_user_id = SubscriptionCreate_user_id req,
            Subscription_plan_id = SubscriptionCreate_plan_id req,
            Subscription_active = SubscriptionCreate_active req\<rparr>]\<rparr>)"
    by (intro create_subscription_inserts) simp_all
  with fresh
  show "\<exists>row. create_subscription req db = (Inr row, db\<lparr>subscriptions := subscriptions db @ [row]\<rparr>)
         \<and> row = \<lparr>Subscription_id = next_id (map Subscription_id (subscriptions db)),
                  Subscription_user_id = SubscriptionCreate_user_id req,
                  Subscription_plan_id = SubscriptionCreate_plan_id req,
                  Subscription_active = SubscriptionCreate_active req\<rparr>
         \<and> Subscription_id row \<notin> Subscription_id ` set (subscriptions db)"
    by simp
next
  assume h: "(\<exists>u\<in>set (users db). User_id u = uid) \<and> (\<exists>p\<in>set (plans db). Plan_id p = pid)"
  then show "\<exists>row db'. create_subscription (SubscriptionCreate_init uid pid None) db = (Inr row, db')
         \<and> row \<in> set (subscriptions db') \<and> Subscription_active row"
    using create_subscription_inserts [of db "SubscriptionCreate_init uid pid None"]
    by (simp add: SubscriptionCreate_init_def)
qed

theorem create_subscription_result_witness:
  "9 \<notin> User_id ` set (users shop)
   \<and> create_subscription (SubscriptionCreate_init 9 1 None) shop =
       (Inl (HTTPException 404 ''User not found''), shop)
   \<and> 9 \<notin> Plan_id ` set (plans shop)
   \<and> create_subscription (SubscriptionCreate_init 2 9 (Some False)) shop =
       (Inl (HTTPException 404 ''Plan not found''), shop)
   \<and> create_subscription (SubscriptionCreate_init 2 1 None) shop =
       (Inr \<lparr>Subscription_id = 3, Subscription_user_id = 2, Subscription_plan_id = 1,
             Subscription_active = True\<rparr>,
        shop\<lparr>subscriptions := [alice_sub, bob_sub,
          \<lparr>Subscription_id = 3, Subscription_user_id = 2, Subscription_plan_id = 1,
            Subscription_active = True\<rparr>]\<rparr>)"
proof -
  let ?r1 = "SubscriptionCreate_init 9 1 None"
  let ?r2 = "SubscriptionCreate_init 2 9 (Some False)"
  let ?r3 = "SubscriptionCreate_init 2 1 None"
  have no_user: "\<forall>u\<in>set (users shop). User_id u \<noteq> SubscriptionCreate_user_id ?r1"
    by (simp add: example_defs SubscriptionCreate_init_def)
  have no_plan: "(\<exists>u\<in>set (users shop). User_id u = SubscriptionCreate_user_id ?r2)
      \<and> (\<forall>p\<in>set (plans shop). Plan_id p \<noteq> SubscriptionCreate_plan_id ?r2)"
    by (simp add: example_defs SubscriptionCreate_init_def)
  have both: "(\<exists>u\<in>set (users shop). User_id u = SubscriptionCreate_user_id ?r3)
      \<and> (\<exists>p\<in>set (plans shop). Plan_id p = SubscriptionCreate_plan_id ?r3)"
    by (simp add: example_defs SubscriptionCreate_init_def)
  have m1: "9 \<notin> User_id ` set (users shop)" and m2: "9 \<notin> Plan_id ` set (plans shop)"
    by (simp_all add: example_defs)
  have key: "next_id [Subscription_id alice_sub, Subscription_id bob_sub] = 3"
    by (simp add: next_id_def example_defs)
  have rows: "subscriptions shop = [alice_sub, bob_sub]"
    by (simp add: shop_def)
  from no_user create_subscription_result [of shop ?r1]
  have a: "create_subscription ?r1 shop = (Inl (HTTPException 404 ''User not found''), shop)"
    by blast
  from no_plan create_subscription_result [of shop ?r2]
  have b: "create_subscription ?r2 shop = (Inl (HTTPException 404 ''Plan not found''), shop)"
    by blast
  from both create_subscription_result [of shop ?r3]
  have "create_subscription ?r3 shop =
      (Inr \<lparr>Subscription_id = next_id (map Subscription_id (subscriptions shop)),
            Subscription_user_id = SubscriptionCreate_user_id ?r3,
            Subscription_plan_id = SubscriptionCreate_plan_id ?r3,
            Subscription_active = SubscriptionCreate_active ?r3\<rparr>,
       shop\<lparr>subscriptions := subscriptions shop @
         [\<lparr>Subscription_id = next_id (map Subscription_id (subscriptions shop)),
            Subscription_user_id = SubscriptionCreate_user_id ?r3,
            Subscription_plan_id = SubscriptionCreate_plan_id ?r3,
            Subscription_active = SubscriptionCreate_active ?r3\<rparr>]\<rparr>)"
    by blast
  then have c: "create_subscription ?r3 shop =
       (Inr \<lparr>Subscription_id = 3, Subscription_user_id = 2, Subscription_plan_id = 1,
             Subscription_active = True\<rparr>,
        shop\<lparr>subscriptions := [alice_sub, bob_sub,
          \<lparr>Subscription_id = 3, Subscription_user_id = 2, Subscription_plan_id = 1,
            Subscription_active = True\<rparr>]\<rparr>)"
    by (simp add: SubscriptionCreate_init_def rows key)
  from a b c m1 m2 show ?thesis by blast
qed



text \<open>
  C8. \<open>create_magazine\<close> fails with 400 and leaves the store as it was when a stored
  magazine has exactly the request's title. Otherwise it appends one row to \<open>magazines\<close>,
  with the next key and the request's title and description, and returns it.
\<close>

theorem create_magazine_result:
  "((\<exists>m\<in>set (magazines db). Magazine_title m = MagazineCreate_title magazine) \<longrightarrow>
      create_magazine magazine db =
        (Inl (HTTPException 400 ''Magazine with this title already exists''), db))
   \<and> ((\<forall>m\<in>set (magazines db). Magazine_title m \<noteq> MagazineCreate_title magazine) \<longrightarrow>
      (\<exists>row. create_magazine magazine db = (Inr row, db\<lparr>magazines := magazines db @ [row]\<rparr>)
         \<and> row = \<lparr>Magazine_id = next_id (map Magazine_id (magazines db)),
                  Magazine_title = MagazineCreate_title magazine,
                  Magazine_description = MagazineCreate_description magazine\<rparr>
         \<and> Magazine_id row \<notin> Magazine_id ` set (magazines db)))"
proof (intro conjI impI)
  assume "\<exists>m\<in>set (magazines db). Magazine_title m = MagazineCreate_title magazine"
  then obtain m where
    "find (\<lambda>m. Magazine_title m = MagazineCreate_title magazine) (magazines db) = Some m"
    using find_Some_if_row [of "magazines db" "\<lambda>m. Magazine_title m = MagazineCreate_title magazine"]
    by blast
  then show "create_magazine magazine db =
      (Inl (HTTPException 400 ''Magazine with this title already exists''), db)"
    by (simp add: create_magazine_def)
next
  assume "\<forall>m\<in>set (magazines db). Magazine_title m \<noteq> MagazineCreate_title magazine"
  then have "find (\<lambda>m. Magazine_title m = MagazineCreate_title magazine) (magazines db) = None"
    by (simp add: find_None_iff_no_row)
  moreover have "next_id (map Magazine_id (magazines db)) \<notin> Magazine_id ` set (magazines db)"
    using next_id_fresh [of "map Magazine_id (magazines db)"] by simp
  ultimately
  show "\<exists>row. create_magazine magazine db = (Inr row, db\<lparr>magazines := magazines db @ [row]\<rparr>)
         \<and> row = \<lparr>Magazine_id = next_id (map Magazine_id (magazines db)),
                  Magazine_title = MagazineCreate_title magazine,
                  Magazine_description = MagazineCreate_description magazine\<rparr>
         \<and> Magazine_id row \<notin> Magazine_id ` set (magazines db)"
    by (simp add: create_magazine_def add_Magazine_def Let_def)
qed

theorem create_magazine_result_witness:
  "create_magazine
     \<lparr>MagazineCreate_title = ''Tech Monthly'', MagazineCreate_description = ''Again''\<rparr> shop =
       (Inl (HTTPException 400 ''Magazine with this title already exists''), shop)
   \<and> create_magazine
     \<lparr>MagazineCreate_title = ''tech monthly'', MagazineCreate_description = ''Lower case''\<rparr> shop =
       (Inr \<lparr>Magazine_id = 2, Magazine_title = ''tech monthly'',
             Magazine_description = ''Lower case''\<rparr>,
        shop\<lparr>magazines := [tech_monthly,
          \<lparr>Magazine_id = 2, Magazine_title = ''tech monthly'',
            Magazine_description = ''Lower case''\<rparr>]\<rparr>)"
proof -
  let ?m1 = "\<lparr>MagazineCreate_title = ''Tech Monthly'', MagazineCreate_description = ''Again''\<rparr>"
  let ?m2 = "\<lparr>MagazineCreate_title = ''tech monthly'', MagazineCreate_description = ''Lower case''\<rparr>"
  have dup: "\<exists>m\<in>set (magazines shop). Magazine_title m = MagazineCreate_title ?m1"
    by (simp add: example_defs)
  have new: "\<forall>m\<in>set (magazines shop). Magazine_title m \<noteq> MagazineCreate_title ?m2"
    by (simp add: example_defs)
  have key: "next_id [Magazine_id tech_monthly] = 2"
    by (simp add: next_id_def example_defs)
  have rows: "magazines shop = [tech_monthly]"
    by (simp add: shop_def)
  from dup create_magazine_result [of shop ?m1]
  have a: "create_magazine ?m1 shop =
      (Inl (HTTPException 400 ''Magazine with this title already exists''), shop)"
    by blast
  from new create_magazine_result [of shop ?m2]
  have "create_magazine ?m2 shop =
      (Inr \<lparr>Magazine_id = next_id (map Magazine_id (magazines shop)),
            Magazine_title = MagazineCreate_title ?m2,
            Magazine_description = MagazineCreate_description ?m2\<rparr>,
       shop\<lparr>magazines := magazines shop @
         [\<lparr>Magazine_id = next_id (map Magazine_id (magazines shop)),
            Magazine_title = MagazineCreate_title ?m2,
            Magazine_description = MagazineCreate_description ?m2\<rparr>]\<rparr>)"
    by blast
  then have b: "create_magazine ?m2 shop =
       (Inr \<lparr>Magazine_id = 2, Magazine_title = ''tech monthly'',
             Magazine_description = ''Lower case''\<rparr>,
        shop\<lparr>magazines := [tech_monthly,
          \<lparr>Magazine_id = 2, Magazine_title = ''tech monthly'',
            Magazine_description = ''Lower case''\<rparr>]\<rparr>)"
    by (simp add: rows key)
  from a b show ?thesis by blast
qed

section \<open>Registration and login\<close>






text \<open>
  C3. \<open>login\<close> fails with 401 when no user has the username, and when the user found
  under the username has a stored hash that \<open>verify_password\<close> rejects for the supplied
  password; both failures are the same exception, with the same status and the same
  message, and so are any two failures of \<open>login\<close> whatever the store and the request.
  When the user is found and the password verifies, the response is the token that
  \<open>create_access_token\<close> makes for the username, with the token type \<open>bearer\<close>. The
  store is never changed.
\<close>

theorem login_result:
  "((\<forall>u\<in>set (users db). User_username u \<noteq> UserLogin_username user) \<longrightarrow>
      login verify mk_token user db =
        (Inl (HTTPException 401 ''Incorrect username or password''), db))
   \<and> (find (\<lambda>u. User_username u = UserLogin_username user) (users db) = Some db_user
        \<and> \<not> verify (UserLogin_password user) (User_hashed_password db_user) \<longrightarrow>
      login verify mk_token user db =
        (Inl (HTTPException 401 ''Incorrect username or password''), db))
   \<and> (find (\<lambda>u. User_username u = UserLogin_username user) (users db) = Some db_user
        \<and> verify (UserLogin_password user) (User_hashed_password db_user) \<longrightarrow>
      login verify mk_token user db =
        (Inr [(''access_token'', mk_token [(''sub'', UserLogin_username user)]),
              (''token_type'', ''bearer'')], db))
   \<and> (fst (login verify mk_token user db) = Inl e
        \<and> fst (login verify' mk_token' user' db') = Inl e' \<longrightarrow>
      e = e' \<and> e = HTTPException 401 ''Incorrect username or password'')"
proof (intro conjI impI)
  assume "\<forall>u\<in>set (users db). User_username u \<noteq> UserLogin_username user"
  then have "find (\<lambda>u. User_username u = UserLogin_username user) (users db) = None"
    by (simp add: find_None_iff_no_row)
  then show "login verify mk_token user db =
      (Inl (HTTPException 401 ''Incorrect username or password''), db)"
    by (simp add: login_def)
next
  assume "find (\<lambda>u. User_username u = UserLogin_username user) (users db) = Some db_user
      \<and> \<not> verify (UserLogin_password user) (User_hashed_password db_user)"
  then show "login verify mk_token user db =
      (Inl (HTTPException 401 ''Incorrect username or password''), db)"
    by (simp add: login_def)
next
  assume h: "find (\<lambda>u. User_username u = UserLogin_username user) (users db) = Some db_user
      \<and> verify (UserLogin_password user) (User_hashed_password db_user)"
  then have "User_username db_user = UserLogin_username user"
    by (blast dest: find_Some_row)
  with h show "login verify mk_token user db =
      (Inr [(''access_token'', mk_token [(''sub'', UserLogin_username user)]),
            (''token_type'', ''bearer'')], db)"
    by (simp add: login_def)
next
  have only: "x = HTTPException 401 ''Incorrect username or password''"
    if "fst (login v t u d) = Inl x" for v t u d x
    using that by (auto simp: login_def split: option.splits if_splits)
  assume "fst (login verify mk_token user db) = Inl e
      \<and> fst (login verify' mk_token' user' db') = Inl e'"
  then show "e = e'" and "e = HTTPException 401 ''Incorrect username or password''"
    using only by blast+
qed

theorem login_result_witness:
  "login stand_in_verify stand_in_token
     \<lparr>UserLogin_username = ''mallory'', UserLogin_password = ''aaaa''\<rparr> shop =
       (Inl (HTTPException 401 ''Incorrect username or password''), shop)
   \<and> login stand_in_verify stand_in_token
     \<lparr>UserLogin_username = ''alice'', UserLogin_password = ''guess''\<rparr> shop =
       (Inl (HTTPException 401 ''Incorrect username or password''), shop)
   \<and> login stand_in_verify stand_in_token
     \<lparr>UserLogin_username = ''alice'', UserLogin_password = ''aaaa''\<rparr> shop =
       (Inr [(''access_token'', ''token.alice''), (''token_type'', ''bearer'')], shop)"
proof -
  let ?nobody = "\<lparr>UserLogin_username = ''mallory'', UserLogin_password = ''aaaa''\<rparr>"
  let ?wrong = "\<lparr>UserLogin_username = ''alice'', UserLogin_password = ''guess''\<rparr>"
  let ?right = "\<lparr>UserLogin_username = ''alice'', UserLogin_password = ''aaaa''\<rparr>"
  have nobody: "\<forall>u\<in>set (users shop). User_username u \<noteq> UserLogin_username ?nobody"
    by (simp add: example_defs)
  have wrong: "find (\<lambda>u. User_username u = UserLogin_username ?wrong) (users shop) = Some alice
      \<and> \<not> stand_in_verify (UserLogin_password ?wrong) (User_hashed_password alice)"
    by (simp add: example_defs stand_in_verify_def)
  have right: "find (\<lambda>u. User_username u = UserLogin_username ?right) (users shop) = Some alice
      \<and> stand_in_verify (UserLogin_password ?right) (User_hashed_password alice)"
    by (simp add: example_defs stand_in_verify_def)
  from nobody login_result [of shop ?nobody stand_in_verify stand_in_token]
  have a: "login stand_in_verify stand_in_token ?nobody shop =
      (Inl (HTTPException 401 ''Incorrect username or password''), shop)"
    by blast
  from wrong login_result [of shop ?wrong stand_in_verify stand_in_token alice]
  have b: "login stand_in_verify stand_in_token ?wrong shop =
      (Inl (HTTPException 401 ''Incorrect username or password''), shop)"
    by blast
  from right login_result [of shop ?right stand_in_verify stand_in_token alice]
  have "login stand_in_verify stand_in_token ?right shop =
      (Inr [(''access_token'', stand_in_token [(''sub'', UserLogin_username ?right)]),
            (''token_type'', ''bearer'')], shop)"
    by blast
  then have c: "login stand_in_verify stand_in_token ?right shop =
      (Inr [(''access_token'', ''token.alice''), (''token_type'', ''bearer'')], shop)"
    by (simp add: stand_in_token_def)
  from a b c show ?thesis by blast
qed

end
